theory Spec2Isabelle
  imports Main "HOL-Library.Word"
begin

section \<open>Payload values and validation errors\<close>

text \<open>
  The repository declares its data model as pydantic (version 2) classes in
  \<^verbatim>\<open>models/course.py\<close> and \<^verbatim>\<open>models/department.py\<close>. A class is validated by
  constructing it from a key-value payload: every declared field is looked up in the
  payload, run through the validator of its annotated type, and the failures of all fields
  are raised together as one \<^verbatim>\<open>ValidationError\<close>.

  A payload value is a Python value of the shapes a decoded JSON document has, together
  with the \<^verbatim>\<open>UUID\<close> and \<^verbatim>\<open>datetime\<close> instances that a caller hands to a read model.
  Floating-point numbers, bytes and model instances are left out. A string is a list of
  8-bit characters; on these the class \<^verbatim>\<open>\d\<close> of the pattern engine is the ten ASCII
  digits. A \<^verbatim>\<open>dict\<close> is an association list read with \<^const>\<open>map_of\<close>.
\<close>

type_synonym uuid = "128 word"

type_synonym datetime = int
  \<comment> \<open>an instant in UTC, counted in microseconds since the epoch\<close>

datatype pyval =
    PNone
  | PBool bool
  | PInt int
  | PStr string
  | PList "pyval list"
  | PDict "(string \<times> pyval) list"
  | PUuid uuid
  | PDatetime datetime

type_synonym payload = "(string \<times> pyval) list"

text \<open>
  One entry of a \<^verbatim>\<open>ValidationError\<close>: its location (field names and list indices,
  outermost first) and its type, named after pydantic's error types.
\<close>

datatype loc_item = Key string | Idx nat

datatype error_type =
    Missing
  | StringType
  | StringPatternMismatch
  | IntType
  | IntParsing
  | ListType
  | ModelType
  | ValueError
  | UuidType
  | UuidParsing
  | DatetimeType
  | DatetimeParsing
  | DatetimeFromDateParsing

type_synonym error = "loc_item list \<times> error_type"

type_synonym 'a validated = "error list + 'a"

text \<open>
  What the two source files import and do not define. \<open>UNIType\<close> is the constrained
  string type of \<^verbatim>\<open>models/person.py\<close>, given by the set of strings it accepts. The
  other fields are the coercions of the validation library in its default (lax) mode:
  reading a string as an integer, checking and normalising an e-mail address
  (\<^verbatim>\<open>EmailStr\<close>), and reading a string or a number as a UUID or a datetime.
\<close>

record lib =
  UNIType :: "string \<Rightarrow> bool"
  str_as_int :: "string \<Rightarrow> int option"
  validate_email :: "string \<Rightarrow> string option"
  uuid_from_str :: "string \<Rightarrow> uuid option"
  datetime_from_str :: "string \<Rightarrow> datetime option"
  datetime_from_int :: "int \<Rightarrow> datetime option"

definition errs :: "'a validated \<Rightarrow> error list" where
  "errs r = (case r of Inl es \<Rightarrow> es | Inr _ \<Rightarrow> [])"

definition at :: "loc_item \<Rightarrow> error list \<Rightarrow> error list" where
  "at i es = map (\<lambda>(l, t). (i # l, t)) es"

definition under :: "loc_item \<Rightarrow> 'a validated \<Rightarrow> 'a validated" where
  "under i r = (case r of Inl es \<Rightarrow> Inl (at i es) | Inr a \<Rightarrow> Inr a)"

text \<open>The locations of the errors of a result, and whether one of them lies at a field.\<close>

definition failed_at :: "loc_item list \<Rightarrow> 'a validated \<Rightarrow> bool" where
  "failed_at l r = (l \<in> fst ` set (errs r))"

section \<open>Validators of the field types\<close>

definition upper :: "char \<Rightarrow> bool" where
  "upper c = (let n = of_char c :: nat in 65 \<le> n \<and> n \<le> 90)"

definition lower :: "char \<Rightarrow> bool" where
  "lower c = (let n = of_char c :: nat in 97 \<le> n \<and> n \<le> 122)"

definition digit :: "char \<Rightarrow> bool" where
  "digit c = (let n = of_char c :: nat in 48 \<le> n \<and> n \<le> 57)"

text \<open>
  An anchored pattern \<^verbatim>\<open>^c1{n1}c2{n2}...$\<close> is a list of counted character classes; the
  whole string has to be consumed. (The library matches with its default engine, for
  which \<^verbatim>\<open>$\<close> is the end of the text.)
\<close>

fun match_seq :: "(nat \<times> (char \<Rightarrow> bool)) list \<Rightarrow> string \<Rightarrow> bool" where
  "match_seq [] s = (s = [])"
| "match_seq ((n, cls) # r) s =
     (n \<le> length s \<and> list_all cls (take n s) \<and> match_seq r (drop n s))"

definition CourseNumberType :: "string \<Rightarrow> bool" where
  \<comment> \<open>\<^verbatim>\<open>StringConstraints(pattern=r"^[A-Z]{4}\d{4}[A-Z]$")\<close>\<close>
  "CourseNumberType s = match_seq [(4, upper), (4, digit), (1, upper)] s"

definition str_validator :: "pyval \<Rightarrow> string validated" where
  "str_validator v = (case v of PStr s \<Rightarrow> Inr s | _ \<Rightarrow> Inl [([], StringType)])"

definition constrained_str :: "(string \<Rightarrow> bool) \<Rightarrow> pyval \<Rightarrow> string validated" where
  "constrained_str pat v =
     (case v of
        PStr s \<Rightarrow> if pat s then Inr s else Inl [([], StringPatternMismatch)]
      | _ \<Rightarrow> Inl [([], StringType)])"

definition int_validator :: "lib \<Rightarrow> pyval \<Rightarrow> int validated" where
  "int_validator L v =
     (case v of
        PInt i \<Rightarrow> Inr i
      | PBool b \<Rightarrow> Inr (if b then 1 else 0)
      | PStr s \<Rightarrow> (case str_as_int L s of Some i \<Rightarrow> Inr i | None \<Rightarrow> Inl [([], IntParsing)])
      | _ \<Rightarrow> Inl [([], IntType)])"

definition email_validator :: "lib \<Rightarrow> pyval \<Rightarrow> string validated" where
  "email_validator L v =
     (case v of
        PStr s \<Rightarrow> (case validate_email L s of Some e \<Rightarrow> Inr e | None \<Rightarrow> Inl [([], ValueError)])
      | _ \<Rightarrow> Inl [([], StringType)])"

definition uuid_validator :: "lib \<Rightarrow> pyval \<Rightarrow> uuid validated" where
  "uuid_validator L v =
     (case v of
        PUuid u \<Rightarrow> Inr u
      | PStr s \<Rightarrow> (case uuid_from_str L s of Some u \<Rightarrow> Inr u | None \<Rightarrow> Inl [([], UuidParsing)])
      | _ \<Rightarrow> Inl [([], UuidType)])"

definition datetime_validator :: "lib \<Rightarrow> pyval \<Rightarrow> datetime validated" where
  "datetime_validator L v =
     (case v of
        PDatetime t \<Rightarrow> Inr t
      | PStr s \<Rightarrow>
          (case datetime_from_str L s of
             Some t \<Rightarrow> Inr t
           | None \<Rightarrow> Inl [([], DatetimeFromDateParsing)])
      | PInt i \<Rightarrow>
          (case datetime_from_int L i of Some t \<Rightarrow> Inr t | None \<Rightarrow> Inl [([], DatetimeParsing)])
      | _ \<Rightarrow> Inl [([], DatetimeType)])"

text \<open>\<^verbatim>\<open>Optional[T]\<close>: \<^verbatim>\<open>None\<close> is a value of the field, anything else is a \<^verbatim>\<open>T\<close>.\<close>

definition optional :: "(pyval \<Rightarrow> 'a validated) \<Rightarrow> pyval \<Rightarrow> 'a option validated" where
  "optional val v = (case v of PNone \<Rightarrow> Inr None | _ \<Rightarrow> map_sum (\<lambda>es. es) Some (val v))"

text \<open>
  \<^verbatim>\<open>List[T]\<close>: every item is validated, and the errors of all failing items are kept,
  each under the index of its item.
\<close>

fun validate_items :: "(pyval \<Rightarrow> 'a validated) \<Rightarrow> nat \<Rightarrow> pyval list \<Rightarrow> 'a list validated" where
  "validate_items val i [] = Inr []"
| "validate_items val i (x # xs) =
     (case val x of
        Inr a \<Rightarrow>
          (case validate_items val (Suc i) xs of Inr as \<Rightarrow> Inr (a # as) | Inl es \<Rightarrow> Inl es)
      | Inl es \<Rightarrow> Inl (at (Idx i) es @ errs (validate_items val (Suc i) xs)))"

definition list_validator :: "(pyval \<Rightarrow> 'a validated) \<Rightarrow> pyval \<Rightarrow> 'a list validated" where
  "list_validator val v =
     (case v of PList xs \<Rightarrow> validate_items val 0 xs | _ \<Rightarrow> Inl [([], ListType)])"

section \<open>Fields of a model\<close>

text \<open>
  \<^verbatim>\<open>Field(...)\<close> declares a required field: a payload without the key is an error of
  type \<^verbatim>\<open>missing\<close>. \<^verbatim>\<open>Field(None)\<close> declares a default: a payload without the key
  gives the default, unvalidated.
\<close>

definition required :: "payload \<Rightarrow> string \<Rightarrow> (pyval \<Rightarrow> 'a validated) \<Rightarrow> 'a validated" where
  "required p k val =
     (case map_of p k of None \<Rightarrow> Inl [([Key k], Missing)] | Some v \<Rightarrow> under (Key k) (val v))"

definition with_default :: "payload \<Rightarrow> string \<Rightarrow> (pyval \<Rightarrow> 'a validated) \<Rightarrow> 'a \<Rightarrow> 'a validated"
  where
  "with_default p k val d =
     (case map_of p k of None \<Rightarrow> Inr d | Some v \<Rightarrow> under (Key k) (val v))"

text \<open>
  The fields of a model are validated one after the other, in the order of their
  declaration; a failing field does not stop the validation of the later ones, and the
  model is built only when no field has failed.
\<close>

definition and_field :: "('a \<Rightarrow> 'b) validated \<Rightarrow> 'a validated \<Rightarrow> 'b validated" where
  "and_field f x =
     (case f of
        Inr g \<Rightarrow> (case x of Inr a \<Rightarrow> Inr (g a) | Inl es \<Rightarrow> Inl es)
      | Inl es \<Rightarrow> Inl (es @ errs x))"

text \<open>\<^verbatim>\<open>model_fields_set\<close>: the declared fields that the payload supplies.\<close>

definition fields_set :: "string list \<Rightarrow> payload \<Rightarrow> string set" where
  "fields_set names p = set (filter (\<lambda>k. map_of p k \<noteq> None) names)"

section \<open>The Course models\<close>

record CourseBase =
  course_number :: string
  name :: string
  professor_uni :: string
  credits :: int
  strength :: int

definition CourseBase_names :: "string list" where
  "CourseBase_names = [''course_number'', ''name'', ''professor_uni'', ''credits'', ''strength'']"

text \<open>
  The five field declarations of \<^verbatim>\<open>CourseBase\<close>, which its subclasses inherit; \<open>mk\<close>
  builds the instance of the class being validated.
\<close>

definition CourseBase_fields ::
  "lib \<Rightarrow> payload \<Rightarrow> (string \<Rightarrow> string \<Rightarrow> string \<Rightarrow> int \<Rightarrow> int \<Rightarrow> 'r) \<Rightarrow> 'r validated" where
  "CourseBase_fields L p mk =
     and_field (and_field (and_field (and_field (and_field (Inr mk)
       (required p ''course_number'' (constrained_str CourseNumberType)))
       (required p ''name'' str_validator))
       (required p ''professor_uni'' (constrained_str (UNIType L))))
       (required p ''credits'' (int_validator L)))
       (required p ''strength'' (int_validator L))"

definition CourseBase_validate :: "lib \<Rightarrow> payload \<Rightarrow> CourseBase validated" where
  "CourseBase_validate L p =
     CourseBase_fields L p (\<lambda>cn nm pu cr st.
       \<lparr>course_number = cn, name = nm, professor_uni = pu, credits = cr, strength = st\<rparr>)"

text \<open>\<^verbatim>\<open>class CourseCreate(CourseBase)\<close> declares no field of its own.\<close>

definition CourseCreate_validate :: "lib \<Rightarrow> payload \<Rightarrow> CourseBase validated" where
  "CourseCreate_validate L p = CourseBase_validate L p"

text \<open>A \<^verbatim>\<open>CourseBase\<close> as the value of a field: the value has to be a dictionary.\<close>

definition CourseBase_model :: "lib \<Rightarrow> pyval \<Rightarrow> CourseBase validated" where
  "CourseBase_model L v =
     (case v of PDict p \<Rightarrow> CourseBase_validate L p | _ \<Rightarrow> Inl [([], ModelType)])"

text \<open>
  \<^verbatim>\<open>class CourseUpdate(BaseModel)\<close>. Its fields in the order of the source:
  \<^verbatim>\<open>course_number: Optional[UNIType] = Field(None, ...)\<close>,
  \<^verbatim>\<open>name: Optional[str] = Field(None, ...)\<close>,
  \<^verbatim>\<open>credits: Optional[int] = Field(None, ...)\<close>,
  \<^verbatim>\<open>professor_uni: Optional[UNIType] = Field(..., ...)\<close>,
  \<^verbatim>\<open>strength: Optional[int] = Field(None, ...)\<close>.
\<close>

record CourseUpdate =
  course_number :: "string option"
  name :: "string option"
  credits :: "int option"
  professor_uni :: "string option"
  strength :: "int option"
  model_fields_set :: "string set"

definition CourseUpdate_names :: "string list" where
  "CourseUpdate_names = [''course_number'', ''name'', ''credits'', ''professor_uni'', ''strength'']"

definition CourseUpdate_validate :: "lib \<Rightarrow> payload \<Rightarrow> CourseUpdate validated" where
  "CourseUpdate_validate L p =
     and_field (and_field (and_field (and_field (and_field
       (Inr (\<lambda>cn nm cr pu st.
          \<lparr>CourseUpdate.course_number = cn, CourseUpdate.name = nm, CourseUpdate.credits = cr,
           CourseUpdate.professor_uni = pu, CourseUpdate.strength = st,
           CourseUpdate.model_fields_set = fields_set CourseUpdate_names p\<rparr>))
       (with_default p ''course_number'' (optional (constrained_str (UNIType L))) None))
       (with_default p ''name'' (optional str_validator) None))
       (with_default p ''credits'' (optional (int_validator L)) None))
       (required p ''professor_uni'' (optional (constrained_str (UNIType L)))))
       (with_default p ''strength'' (optional (int_validator L)) None)"

subsection \<open>The read model and its generated fields\<close>

text \<open>
  \<^verbatim>\<open>uuid4()\<close> and \<^verbatim>\<open>datetime.now(timezone.utc)\<close> read the world outside the program:
  the sequence of identifiers the generator will hand out and the sequence of instants the
  clock will show, with the number of values taken so far.
\<close>

record world =
  entropy :: "nat \<Rightarrow> uuid"
  drawn :: nat
  clock :: "nat \<Rightarrow> datetime"
  reads :: nat

definition uuid4 :: "world \<Rightarrow> uuid \<times> world" where
  "uuid4 w = (entropy w (drawn w), w\<lparr>drawn := Suc (drawn w)\<rparr>)"

definition now :: "world \<Rightarrow> datetime \<times> world" where
  "now w = (clock w (reads w), w\<lparr>reads := Suc (reads w)\<rparr>)"

text \<open>
  \<^verbatim>\<open>Field(default_factory=f)\<close>: the factory is called when the payload has no value for
  the field; a value of the payload is validated and used.
\<close>

definition factory_field ::
  "payload \<Rightarrow> string \<Rightarrow> (pyval \<Rightarrow> 'a validated) \<Rightarrow> (world \<Rightarrow> 'a \<times> world) \<Rightarrow> world
     \<Rightarrow> 'a validated \<times> world" where
  "factory_field p k val factory w =
     (case map_of p k of
        None \<Rightarrow> (case factory w of (a, w') \<Rightarrow> (Inr a, w'))
      | Some v \<Rightarrow> (under (Key k) (val v), w))"

record CourseRead = CourseBase +
  id' :: uuid
  created_at :: datetime
  updated_at :: datetime

definition CourseRead_validate :: "lib \<Rightarrow> world \<Rightarrow> payload \<Rightarrow> CourseRead validated \<times> world"
  where
  "CourseRead_validate L w p =
     (case factory_field p ''id'' (uuid_validator L) uuid4 w of (i, w1) \<Rightarrow>
      case factory_field p ''created_at'' (datetime_validator L) now w1 of (c, w2) \<Rightarrow>
      case factory_field p ''updated_at'' (datetime_validator L) now w2 of (u, w3) \<Rightarrow>
        (and_field (and_field (and_field
           (CourseBase_fields L p (\<lambda>cn nm pu cr st i c u.
              \<lparr>CourseBase.course_number = cn, CourseBase.name = nm,
               CourseBase.professor_uni = pu, CourseBase.credits = cr,
               CourseBase.strength = st,
               CourseRead.id' = i, CourseRead.created_at = c, CourseRead.updated_at = u\<rparr>))
           i) c) u, w3))"

text \<open>\<^verbatim>\<open>model_dump()\<close>: the fields of an instance as a dictionary.\<close>

definition CourseBase_dump :: "CourseBase \<Rightarrow> payload" where
  "CourseBase_dump r =
     [(''course_number'', PStr (CourseBase.course_number r)),
      (''name'', PStr (CourseBase.name r)),
      (''professor_uni'', PStr (CourseBase.professor_uni r)),
      (''credits'', PInt (CourseBase.credits r)),
      (''strength'', PInt (CourseBase.strength r))]"

definition CourseRead_dump :: "CourseRead \<Rightarrow> payload" where
  "CourseRead_dump r =
     [(''course_number'', PStr (CourseBase.course_number r)),
      (''name'', PStr (CourseBase.name r)),
      (''professor_uni'', PStr (CourseBase.professor_uni r)),
      (''credits'', PInt (CourseBase.credits r)),
      (''strength'', PInt (CourseBase.strength r)),
      (''id'', PUuid (CourseRead.id' r)),
      (''created_at'', PDatetime (CourseRead.created_at r)),
      (''updated_at'', PDatetime (CourseRead.updated_at r))]"

section \<open>The Department models\<close>

record DepartmentBase =
  department_code :: string
  name :: string
  head_of_department :: string
  courses_list :: "CourseBase list"
  email :: string

definition DepartmentBase_names :: "string list" where
  "DepartmentBase_names =
     [''department_code'', ''name'', ''head_of_department'', ''courses_list'', ''email'']"

definition DepartmentBase_fields ::
  "lib \<Rightarrow> payload \<Rightarrow> (string \<Rightarrow> string \<Rightarrow> string \<Rightarrow> CourseBase list \<Rightarrow> string \<Rightarrow> 'r)
     \<Rightarrow> 'r validated" where
  "DepartmentBase_fields L p mk =
     and_field (and_field (and_field (and_field (and_field (Inr mk)
       (required p ''department_code'' str_validator))
       (required p ''name'' str_validator))
       (required p ''head_of_department'' (constrained_str (UNIType L))))
       (required p ''courses_list'' (list_validator (CourseBase_model L))))
       (required p ''email'' (email_validator L))"

definition DepartmentBase_validate :: "lib \<Rightarrow> payload \<Rightarrow> DepartmentBase validated" where
  "DepartmentBase_validate L p =
     DepartmentBase_fields L p (\<lambda>dc nm hd cs em.
       \<lparr>department_code = dc, name = nm, head_of_department = hd, courses_list = cs,
        email = em\<rparr>)"

text \<open>\<^verbatim>\<open>class DepartmentCreate(DepartmentBase)\<close> declares no field of its own.\<close>

definition DepartmentCreate_validate :: "lib \<Rightarrow> payload \<Rightarrow> DepartmentBase validated" where
  "DepartmentCreate_validate L p = DepartmentBase_validate L p"

record DepartmentRead = DepartmentBase +
  id' :: uuid
  created_at :: datetime
  updated_at :: datetime

definition DepartmentRead_validate ::
  "lib \<Rightarrow> world \<Rightarrow> payload \<Rightarrow> DepartmentRead validated \<times> world" where
  "DepartmentRead_validate L w p =
     (case factory_field p ''id'' (uuid_validator L) uuid4 w of (i, w1) \<Rightarrow>
      case factory_field p ''created_at'' (datetime_validator L) now w1 of (c, w2) \<Rightarrow>
      case factory_field p ''updated_at'' (datetime_validator L) now w2 of (u, w3) \<Rightarrow>
        (and_field (and_field (and_field
           (DepartmentBase_fields L p (\<lambda>dc nm hd cs em i c u.
              \<lparr>DepartmentBase.department_code = dc, DepartmentBase.name = nm,
               DepartmentBase.head_of_department = hd, DepartmentBase.courses_list = cs,
               DepartmentBase.email = em,
               DepartmentRead.id' = i, DepartmentRead.created_at = c,
               DepartmentRead.updated_at = u\<rparr>))
           i) c) u, w3))"

definition DepartmentRead_dump :: "DepartmentRead \<Rightarrow> payload" where
  "DepartmentRead_dump r =
     [(''department_code'', PStr (DepartmentBase.department_code r)),
      (''name'', PStr (DepartmentBase.name r)),
      (''head_of_department'', PStr (DepartmentBase.head_of_department r)),
      (''courses_list'', PList (map (\<lambda>c. PDict (CourseBase_dump c)) (DepartmentBase.courses_list r))),
      (''email'', PStr (DepartmentBase.email r)),
      (''id'', PUuid (DepartmentRead.id' r)),
      (''created_at'', PDatetime (DepartmentRead.created_at r)),
      (''updated_at'', PDatetime (DepartmentRead.updated_at r))]"

text \<open>
  \<^verbatim>\<open>class DepartmentUpdate(BaseModel)\<close>: five fields, each annotated
  \<^verbatim>\<open>Optional[...]\<close> and each declared with \<^verbatim>\<open>Field(..., ...)\<close>.
\<close>

record DepartmentUpdate =
  department_code :: "string option"
  name :: "string option"
  head_of_department :: "string option"
  courses_list :: "CourseBase list option"
  email :: "string option"
  model_fields_set :: "string set"

definition DepartmentUpdate_validate :: "lib \<Rightarrow> payload \<Rightarrow> DepartmentUpdate validated" where
  "DepartmentUpdate_validate L p =
     and_field (and_field (and_field (and_field (and_field
       (Inr (\<lambda>dc nm hd cs em.
          \<lparr>DepartmentUpdate.department_code = dc, DepartmentUpdate.name = nm,
           DepartmentUpdate.head_of_department = hd, DepartmentUpdate.courses_list = cs,
           DepartmentUpdate.email = em,
           DepartmentUpdate.model_fields_set = fields_set DepartmentBase_names p\<rparr>))
       (required p ''department_code'' (optional str_validator)))
       (required p ''name'' (optional str_validator)))
       (required p ''head_of_department'' (optional (constrained_str (UNIType L)))))
       (required p ''courses_list'' (optional (list_validator (CourseBase_model L)))))
       (required p ''email'' (optional (email_validator L)))"

section \<open>A concrete library and concrete payloads\<close>

text \<open>
  Modelled from the spec: \<^verbatim>\<open>UNIType\<close> of \<^verbatim>\<open>models/person.py\<close>, which is not among the
  sources. The specification describes the format as lowercase letters followed by
  digits.
\<close>

definition UNIType_spec :: "string \<Rightarrow> bool" where
  "UNIType_spec s =
     (takeWhile lower s \<noteq> [] \<and> dropWhile lower s \<noteq> [] \<and> list_all digit (dropWhile lower s))"

text \<open>
  Modelled from the spec: the minimum bar of a valid e-mail address, something in front of
  an \<^verbatim>\<open>@\<close> and at least one dot behind it. It is a necessary condition only: the text
  behind the first \<^verbatim>\<open>@\<close> is not looked at any further, so the form that \<^verbatim>\<open>EmailStr\<close>
  also reads, an address in angle brackets after a display name, meets it as well.
\<close>

definition email_minimum_bar :: "string \<Rightarrow> bool" where
  "email_minimum_bar s =
     (case dropWhile (\<lambda>c. c \<noteq> CHR ''@'') s of
        [] \<Rightarrow> False
      | _ # rest \<Rightarrow> takeWhile (\<lambda>c. c \<noteq> CHR ''@'') s \<noteq> [] \<and> CHR ''.'' \<in> set rest)"

text \<open>
  A class of addresses of the plainest shape, in which to state what is assumed of the
  e-mail grammar of the library: a local part of at most 64 lowercase letters and digits, one
  \<^verbatim>\<open>@\<close>, and a domain of two or more labels of at most 63 lowercase letters each, the
  last one a top-level domain in general use; 254 characters at most in all.
\<close>

primrec split_dots :: "string \<Rightarrow> string list" where
  "split_dots [] = [[]]"
| "split_dots (c # cs) =
     (if c = CHR ''.'' then [] # split_dots cs
      else (case split_dots cs of [] \<Rightarrow> [[c]] | l # ls \<Rightarrow> (c # l) # ls))"

definition plain_address :: "string \<Rightarrow> bool" where
  "plain_address s =
     (case dropWhile (\<lambda>c. c \<noteq> CHR ''@'') s of
        [] \<Rightarrow> False
      | _ # domain \<Rightarrow>
          takeWhile (\<lambda>c. c \<noteq> CHR ''@'') s \<noteq> []
          \<and> length (takeWhile (\<lambda>c. c \<noteq> CHR ''@'') s) \<le> 64
          \<and> list_all (\<lambda>c. lower c \<or> digit c) (takeWhile (\<lambda>c. c \<noteq> CHR ''@'') s)
          \<and> length s \<le> 254
          \<and> 2 \<le> length (split_dots domain)
          \<and> list_all (\<lambda>l. l \<noteq> [] \<and> length l \<le> 63 \<and> list_all lower l) (split_dots domain)
          \<and> last (split_dots domain) \<in> set [''com'', ''edu'', ''net'', ''org''])"

text \<open>
  One library to evaluate the models with: decimal integers with an optional minus sign,
  the plain e-mail addresses (returned as they are), UUIDs as 32 hexadecimal digits with
  hyphens between them, and datetimes as Unix seconds.
\<close>

definition digits_value :: "string \<Rightarrow> nat" where
  "digits_value s = foldl (\<lambda>a c. 10 * a + (of_char c - 48)) 0 s"

definition decimal_int :: "string \<Rightarrow> int option" where
  "decimal_int s =
     (case s of
        [] \<Rightarrow> None
      | c # r \<Rightarrow>
          if c = CHR ''-'' \<and> r \<noteq> [] \<and> list_all digit r then Some (- int (digits_value r))
          else if list_all digit s then Some (int (digits_value s))
          else None)"

definition hex_value :: "char \<Rightarrow> nat option" where
  "hex_value c =
     (let n = of_char c :: nat in
      if 48 \<le> n \<and> n \<le> 57 then Some (n - 48)
      else if 97 \<le> n \<and> n \<le> 102 then Some (n - 87)
      else if 65 \<le> n \<and> n \<le> 70 then Some (n - 55)
      else None)"

definition hex_uuid :: "string \<Rightarrow> uuid option" where
  "hex_uuid s =
     (let h = filter (\<lambda>c. c \<noteq> CHR ''-'') s in
      if length h = 32 \<and> list_all (\<lambda>c. hex_value c \<noteq> None) h
      then Some (word_of_nat
        (foldl (\<lambda>a c. 16 * a + (case hex_value c of Some d \<Rightarrow> d | None \<Rightarrow> 0)) 0 h))
      else None)"

definition reference_lib :: lib where
  "reference_lib =
     \<lparr>UNIType = UNIType_spec,
      str_as_int = decimal_int,
      validate_email = (\<lambda>s. if plain_address s then Some s else None),
      uuid_from_str = hex_uuid,
      datetime_from_str = (\<lambda>s. map_option (\<lambda>i. i * 1000000) (decimal_int s)),
      datetime_from_int = (\<lambda>i. Some (i * 1000000))\<rparr>"

definition world0 :: world where
  "world0 =
     \<lparr>entropy = (\<lambda>n. word_of_nat (1000 + n)), drawn = 0,
      clock = (\<lambda>n. 1736936430000000 + int n), reads = 0\<rparr>"

text \<open>The payloads of the scenarios of the specification.\<close>

definition cloud_computing :: payload where
  "cloud_computing =
     [(''course_number'', PStr ''COMS4153W''), (''name'', PStr ''Cloud Computing''),
      (''professor_uni'', PStr ''dj2390''), (''credits'', PInt 3), (''strength'', PInt 120)]"

definition malformed_course :: payload where
  "malformed_course =
     [(''course_number'', PStr ''cs101''), (''name'', PStr ''''),
      (''professor_uni'', PStr ''123''), (''credits'', PStr ''x''), (''strength'', PInt 120)]"

definition computer_science :: "pyval list \<Rightarrow> string \<Rightarrow> payload" where
  "computer_science courses address =
     [(''department_code'', PStr ''COMS''), (''name'', PStr ''Computer Science''),
      (''head_of_department'', PStr ''sf2303''), (''courses_list'', PList courses),
      (''email'', PStr address)]"

definition stored_department :: payload where
  "stored_department =
     computer_science [] ''cs@columbia.edu''
     @ [(''id'', PUuid 7), (''created_at'', PDatetime 5), (''updated_at'', PDatetime 9)]"

text \<open>A later state of the world: more identifiers drawn, a later clock.\<close>

definition world1 :: world where
  "world1 =
     \<lparr>entropy = (\<lambda>n. word_of_nat (1000 + n)), drawn = 5,
      clock = (\<lambda>n. 1800000000000000 + int n), reads = 9\<rparr>"

text \<open>A world whose clock is set back between two readings.\<close>

definition world_back :: world where
  "world_back =
     \<lparr>entropy = (\<lambda>n. word_of_nat (1000 + n)), drawn = 0,
      clock = (\<lambda>n. 1736936430000000 - int n), reads = 0\<rparr>"

section \<open>Keys that name no field\<close>

lemma errs_Inl: "errs (Inl es) = es" and errs_Inr: "errs (Inr a) = []"
  by (simp_all add: errs_def)

lemma errs_under: "errs (under i r) = at i (errs r)"
  by (cases r) (simp_all add: under_def errs_def at_def)

lemma errs_and_field: "errs (and_field f x) = errs f @ errs x"
  by (cases f; cases x) (simp_all add: and_field_def errs_def)

lemma and_field_Inr_iff:
  "and_field f x = Inr b \<longleftrightarrow> (\<exists>g a. f = Inr g \<and> x = Inr a \<and> b = g a)"
  by (cases f; cases x) (auto simp: and_field_def)

lemma map_of_unknown_key:
  "f \<noteq> k \<Longrightarrow> map_of (p @ (k, v) # q) f = map_of (p @ q) f"
  by (simp add: map_of_append map_add_def split: option.splits)

lemma required_unknown_key:
  assumes "f \<noteq> k"
  shows "required (p @ (k, v) # q) f val = required (p @ q) f val"
  by (simp only: required_def map_of_unknown_key [OF assms])

lemma with_default_unknown_key:
  assumes "f \<noteq> k"
  shows "with_default (p @ (k, v) # q) f val d = with_default (p @ q) f val d"
  by (simp only: with_default_def map_of_unknown_key [OF assms])

lemma fields_set_unknown_key:
  "k \<notin> set names \<Longrightarrow> fields_set names (p @ (k, v) # q) = fields_set names (p @ q)"
proof -
  assume "k \<notin> set names"
  then have "filter (\<lambda>f. map_of (p @ (k, v) # q) f \<noteq> None) names
           = filter (\<lambda>f. map_of (p @ q) f \<noteq> None) names"
    by (intro filter_cong refl) (auto simp: map_of_unknown_key)
  then show ?thesis by (simp only: fields_set_def)
qed

lemma CourseBase_fields_unknown_key:
  assumes "k \<notin> set CourseBase_names"
  shows "CourseBase_fields L (p @ (k, v) # q) mk = CourseBase_fields L (p @ q) mk"
proof -
  from assms have "''course_number'' \<noteq> k" "''name'' \<noteq> k" "''professor_uni'' \<noteq> k"
    "''credits'' \<noteq> k" "''strength'' \<noteq> k"
    by (auto simp: CourseBase_names_def)
  then show ?thesis
    by (simp add: CourseBase_fields_def required_unknown_key)
qed

lemma CourseUpdate_unknown_key:
  assumes "k \<notin> set CourseUpdate_names"
  shows "CourseUpdate_validate L (p @ (k, v) # q) = CourseUpdate_validate L (p @ q)"
proof -
  from assms have "''course_number'' \<noteq> k" "''name'' \<noteq> k" "''professor_uni'' \<noteq> k"
    "''credits'' \<noteq> k" "''strength'' \<noteq> k"
    by (auto simp: CourseUpdate_names_def)
  then show ?thesis using assms
    by (simp add: CourseUpdate_validate_def required_unknown_key with_default_unknown_key
        fields_set_unknown_key)
qed

lemma DepartmentBase_fields_unknown_key:
  assumes "k \<notin> set DepartmentBase_names"
  shows "DepartmentBase_fields L (p @ (k, v) # q) mk = DepartmentBase_fields L (p @ q) mk"
proof -
  from assms have "''department_code'' \<noteq> k" "''name'' \<noteq> k" "''head_of_department'' \<noteq> k"
    "''courses_list'' \<noteq> k" "''email'' \<noteq> k"
    by (auto simp: DepartmentBase_names_def)
  then show ?thesis
    by (simp add: DepartmentBase_fields_def required_unknown_key)
qed

lemma DepartmentUpdate_unknown_key:
  assumes "k \<notin> set DepartmentBase_names"
  shows "DepartmentUpdate_validate L (p @ (k, v) # q) = DepartmentUpdate_validate L (p @ q)"
proof -
  from assms have "''department_code'' \<noteq> k" "''name'' \<noteq> k" "''head_of_department'' \<noteq> k"
    "''courses_list'' \<noteq> k" "''email'' \<noteq> k"
    by (auto simp: DepartmentBase_names_def)
  then show ?thesis using assms
    by (simp add: DepartmentUpdate_validate_def required_unknown_key fields_set_unknown_key)
qed

text \<open>
  Claim C10. A key of the payload that names no declared field is ignored (the classes keep
  the library's default for extra keys): inserting such a key anywhere in a Create or
  Update payload changes neither the errors nor the instance, \<open>model_fields_set\<close>
  included.
\<close>

theorem unknown_keys_ignored:
  "(k \<notin> set CourseBase_names \<longrightarrow>
      CourseCreate_validate L (p @ (k, v) # q) = CourseCreate_validate L (p @ q)
      \<and> CourseUpdate_validate L (p @ (k, v) # q) = CourseUpdate_validate L (p @ q))
   \<and> (k \<notin> set DepartmentBase_names \<longrightarrow>
      DepartmentCreate_validate L (p @ (k, v) # q) = DepartmentCreate_validate L (p @ q)
      \<and> DepartmentUpdate_validate L (p @ (k, v) # q) = DepartmentUpdate_validate L (p @ q))"
proof -
  have "set CourseUpdate_names = set CourseBase_names"
    by (auto simp: CourseUpdate_names_def CourseBase_names_def)
  then show ?thesis
    by (simp add: CourseCreate_validate_def CourseBase_validate_def DepartmentCreate_validate_def
        DepartmentBase_validate_def CourseBase_fields_unknown_key CourseUpdate_unknown_key
        DepartmentBase_fields_unknown_key DepartmentUpdate_unknown_key)
qed

theorem unknown_keys_ignored_witness:
  "''room'' \<notin> set CourseBase_names \<and> ''room'' \<notin> set DepartmentBase_names
   \<and> CourseCreate_validate reference_lib (cloud_computing @ [(''room'', PStr ''CSB 451'')])
     = CourseCreate_validate reference_lib cloud_computing
   \<and> CourseUpdate_validate reference_lib ((''room'', PStr ''CSB 451'') # cloud_computing)
     = CourseUpdate_validate reference_lib cloud_computing
   \<and> DepartmentCreate_validate reference_lib
       (computer_science [] ''cs@columbia.edu'' @ [(''room'', PStr ''CSB 451'')])
     = DepartmentCreate_validate reference_lib (computer_science [] ''cs@columbia.edu'')
   \<and> DepartmentUpdate_validate reference_lib
       ((''room'', PStr ''CSB 451'') # computer_science [] ''cs@columbia.edu'')
     = DepartmentUpdate_validate reference_lib (computer_science [] ''cs@columbia.edu'')"
  using unknown_keys_ignored [of "''room''" reference_lib cloud_computing "PStr ''CSB 451''" "[]"]
    unknown_keys_ignored [of "''room''" reference_lib "[]" "PStr ''CSB 451''" cloud_computing]
    unknown_keys_ignored [of "''room''" reference_lib "computer_science [] ''cs@columbia.edu''"
      "PStr ''CSB 451''" "[]"]
    unknown_keys_ignored [of "''room''" reference_lib "[]" "PStr ''CSB 451''"
      "computer_science [] ''cs@columbia.edu''"]
  by (simp add: CourseBase_names_def DepartmentBase_names_def)

section \<open>Errors of the fields of a model\<close>

lemma failed_at_and_field:
  "failed_at l (and_field f x) \<longleftrightarrow> failed_at l f \<or> failed_at l x"
  by (auto simp: failed_at_def errs_and_field)

lemma failed_at_Inr: "\<not> failed_at l (Inr a)"
  by (simp add: failed_at_def errs_def)

lemma errs_required:
  "errs (required p k val) =
     (case map_of p k of None \<Rightarrow> [([Key k], Missing)] | Some v \<Rightarrow> at (Key k) (errs (val v)))"
  by (cases "map_of p k") (simp_all add: required_def errs_under errs_Inl)

lemma failed_at_required_other:
  "j \<noteq> k \<Longrightarrow> \<not> failed_at (Key j # l) (required p k val)"
  by (auto simp: failed_at_def errs_required at_def split: option.splits)

lemma failed_at_required_str:
  "failed_at [Key k] (required p k str_validator) \<longleftrightarrow> (\<forall>s. map_of p k \<noteq> Some (PStr s))"
proof (cases "map_of p k")
  case None
  then show ?thesis by (simp add: failed_at_def errs_required)
next
  case (Some v)
  then show ?thesis
    by (cases v) (simp_all add: failed_at_def errs_required at_def str_validator_def errs_Inl errs_Inr)
qed

lemma errs_CourseBase_fields:
  "errs (CourseBase_fields L p mk) =
     errs (required p ''course_number'' (constrained_str CourseNumberType))
     @ errs (required p ''name'' str_validator)
     @ errs (required p ''professor_uni'' (constrained_str (UNIType L)))
     @ errs (required p ''credits'' (int_validator L))
     @ errs (required p ''strength'' (int_validator L))"
  by (simp add: CourseBase_fields_def errs_and_field errs_Inr)


lemma failed_at_append:
  "failed_at l (Inl (es @ fs) :: 'a validated) \<longleftrightarrow>
     failed_at l (Inl es :: 'a validated) \<or> failed_at l (Inl fs :: 'a validated)"
  by (auto simp: failed_at_def errs_def)

lemma failed_at_errs: "failed_at l r \<longleftrightarrow> l \<in> fst ` set (errs r)"
  by (simp add: failed_at_def)

text \<open>
  Claim C4, as the code has it. \<open>name\<close> of a course and \<open>name\<close> and
  \<open>department_code\<close> of a department are declared as plain \<^verbatim>\<open>str\<close>, with no
  minimum length: on a Create payload the field fails exactly when the key is absent or its
  value is not a string. Every string passes, the empty one included.
\<close>

theorem string_fields_accept_every_string:
  "(failed_at [Key ''name''] (CourseCreate_validate L p)
      \<longleftrightarrow> (\<forall>s. map_of p ''name'' \<noteq> Some (PStr s)))
   \<and> (failed_at [Key ''name''] (DepartmentCreate_validate L q)
      \<longleftrightarrow> (\<forall>s. map_of q ''name'' \<noteq> Some (PStr s)))
   \<and> (failed_at [Key ''department_code''] (DepartmentCreate_validate L q)
      \<longleftrightarrow> (\<forall>s. map_of q ''department_code'' \<noteq> Some (PStr s)))"
proof -
  have c: "failed_at [Key ''name''] (CourseBase_fields L p mk)
      \<longleftrightarrow> failed_at [Key ''name''] (required p ''name'' str_validator)" for mk :: "string \<Rightarrow> string \<Rightarrow> string \<Rightarrow> int \<Rightarrow> int \<Rightarrow> CourseBase"
    by (simp add: CourseBase_fields_def failed_at_and_field failed_at_Inr failed_at_required_other)
  have d: "failed_at [Key ''name''] (DepartmentBase_fields L q mk)
      \<longleftrightarrow> failed_at [Key ''name''] (required q ''name'' str_validator)" for mk :: "string \<Rightarrow> string \<Rightarrow> string \<Rightarrow> CourseBase list \<Rightarrow> string \<Rightarrow> DepartmentBase"
    by (simp add: DepartmentBase_fields_def failed_at_and_field failed_at_Inr
        failed_at_required_other)
  have e: "failed_at [Key ''department_code''] (DepartmentBase_fields L q mk)
      \<longleftrightarrow> failed_at [Key ''department_code''] (required q ''department_code'' str_validator)" for mk :: "string \<Rightarrow> string \<Rightarrow> string \<Rightarrow> CourseBase list \<Rightarrow> string \<Rightarrow> DepartmentBase"
    by (simp add: DepartmentBase_fields_def failed_at_and_field failed_at_Inr
        failed_at_required_other)
  show ?thesis
    by (simp only: CourseCreate_validate_def CourseBase_validate_def DepartmentCreate_validate_def
        DepartmentBase_validate_def c d e failed_at_required_str simp_thms)
qed

section \<open>Create and Update payloads\<close>

lemmas eval_defs =
  CourseBase_validate_def CourseCreate_validate_def CourseBase_fields_def
  CourseUpdate_validate_def CourseUpdate_names_def
  DepartmentBase_validate_def DepartmentCreate_validate_def DepartmentBase_fields_def
  DepartmentUpdate_validate_def DepartmentBase_names_def CourseBase_model_def
  and_field_def required_def with_default_def under_def at_def errs_def fields_set_def
  constrained_str_def str_validator_def int_validator_def email_validator_def optional_def
  list_validator_def CourseNumberType_def upper_def lower_def digit_def

lemmas reference_defs =
  reference_lib_def UNIType_spec_def decimal_int_def digits_value_def email_minimum_bar_def
  plain_address_def

lemma and_field_proper: "f \<noteq> Inl [] \<Longrightarrow> x \<noteq> Inl [] \<Longrightarrow> and_field f x \<noteq> Inl []"
  by (cases f; cases x) (simp_all add: and_field_def errs_def)

lemma under_proper: "r \<noteq> Inl [] \<Longrightarrow> under i r \<noteq> Inl []"
  by (cases r) (simp_all add: under_def at_def)

lemma required_proper: "(\<And>v. val v \<noteq> Inl []) \<Longrightarrow> required p k val \<noteq> Inl []"
  by (cases "map_of p k") (simp_all add: required_def under_proper)

lemma str_validator_proper: "str_validator v \<noteq> Inl []"
  by (cases v) (simp_all add: str_validator_def)

lemma constrained_str_proper: "constrained_str pat v \<noteq> Inl []"
  by (cases v) (simp_all add: constrained_str_def)

lemma int_validator_proper: "int_validator L v \<noteq> Inl []"
  by (cases v) (simp_all add: int_validator_def split: option.splits)

lemma CourseBase_fields_proper: "CourseBase_fields L p mk \<noteq> Inl []"
  unfolding CourseBase_fields_def
  by (intro and_field_proper required_proper str_validator_proper constrained_str_proper
      int_validator_proper) simp

lemma Inr_iff_no_errs: "r \<noteq> Inl [] \<Longrightarrow> (\<exists>a. r = Inr a) \<longleftrightarrow> errs r = []"
  by (cases r) (simp_all add: errs_def)

text \<open>
  Claim C6, as the code has it. The errors of a \<open>CourseCreate\<close> are the errors of its five
  fields, one after the other, and an instance is built exactly when there is none. On the
  payload of the scenario three fields fail, \<open>course_number\<close>, \<open>professor_uni\<close> and
  \<open>credits\<close>, for every library that reads neither \<open>123\<close> as a UNI nor \<open>x\<close> as
  an integer; the empty \<open>name\<close> is a string and passes.
\<close>

theorem CourseCreate_reports_every_failing_field:
  assumes "\<not> UNIType L ''123''" and "str_as_int L ''x'' = None"
  shows "CourseCreate_validate L malformed_course =
           Inl [([Key ''course_number''], StringPatternMismatch),
                ([Key ''professor_uni''], StringPatternMismatch),
                ([Key ''credits''], IntParsing)]
         \<and> (\<forall>p. errs (CourseCreate_validate L p) =
               errs (required p ''course_number'' (constrained_str CourseNumberType))
               @ errs (required p ''name'' str_validator)
               @ errs (required p ''professor_uni'' (constrained_str (UNIType L)))
               @ errs (required p ''credits'' (int_validator L))
               @ errs (required p ''strength'' (int_validator L)))
         \<and> (\<forall>p. (\<exists>r. CourseCreate_validate L p = Inr r)
               \<longleftrightarrow> errs (CourseCreate_validate L p) = [])"
proof (intro conjI allI)
  show "CourseCreate_validate L malformed_course =
           Inl [([Key ''course_number''], StringPatternMismatch),
                ([Key ''professor_uni''], StringPatternMismatch),
                ([Key ''credits''], IntParsing)]"
    using assms by (simp add: eval_defs malformed_course_def)
next
  fix p
  show "errs (CourseCreate_validate L p) =
               errs (required p ''course_number'' (constrained_str CourseNumberType))
               @ errs (required p ''name'' str_validator)
               @ errs (required p ''professor_uni'' (constrained_str (UNIType L)))
               @ errs (required p ''credits'' (int_validator L))
               @ errs (required p ''strength'' (int_validator L))"
    by (simp only: CourseCreate_validate_def CourseBase_validate_def errs_CourseBase_fields)
next
  fix p
  show "(\<exists>r. CourseCreate_validate L p = Inr r) \<longleftrightarrow> errs (CourseCreate_validate L p) = []"
    unfolding CourseCreate_validate_def CourseBase_validate_def
    by (rule Inr_iff_no_errs) (rule CourseBase_fields_proper)
qed

theorem CourseCreate_reports_every_failing_field_witness:
  "\<not> UNIType reference_lib ''123'' \<and> str_as_int reference_lib ''x'' = None
   \<and> CourseCreate_validate reference_lib malformed_course =
           Inl [([Key ''course_number''], StringPatternMismatch),
                ([Key ''professor_uni''], StringPatternMismatch),
                ([Key ''credits''], IntParsing)]"
proof -
  have a: "\<not> UNIType reference_lib ''123''"
    by (simp add: reference_defs lower_def digit_def)
  have b: "str_as_int reference_lib ''x'' = None"
    by (simp add: reference_defs lower_def digit_def)
  show ?thesis
    using a b CourseCreate_reports_every_failing_field [OF a b] by simp
qed

text \<open>
  The scenario of claim C6 evaluated: the aggregated error has three entries, not four,
  and none of them is at \<open>name\<close>.
\<close>

theorem malformed_course_has_three_errors:
  "errs (CourseCreate_validate reference_lib malformed_course) =
     [([Key ''course_number''], StringPatternMismatch),
      ([Key ''professor_uni''], StringPatternMismatch),
      ([Key ''credits''], IntParsing)]
   \<and> \<not> failed_at [Key ''name''] (CourseCreate_validate reference_lib malformed_course)
   \<and> \<not> 4 \<le> length (errs (CourseCreate_validate reference_lib malformed_course))"
  by (simp add: eval_defs reference_defs malformed_course_def failed_at_def)

text \<open>
  Against claim C4 as stated: a Create payload whose \<open>name\<close> is the empty string
  validates.
\<close>

theorem empty_name_accepted:
  "CourseCreate_validate reference_lib
     [(''course_number'', PStr ''COMS4153W''), (''name'', PStr ''''),
      (''professor_uni'', PStr ''dj2390''), (''credits'', PInt 3), (''strength'', PInt 120)]
   = Inr \<lparr>CourseBase.course_number = ''COMS4153W'', CourseBase.name = '''',
          CourseBase.professor_uni = ''dj2390'', CourseBase.credits = 3,
          CourseBase.strength = 120\<rparr>"
  by (simp add: eval_defs reference_defs)

text \<open>
  Claim C2 at the payload of its scenario. \<open>professor_uni\<close> of \<open>CourseUpdate\<close> is
  declared with \<^verbatim>\<open>Field(...)\<close>, so the payload that has only \<open>strength\<close> is rejected:
  the result is the error that \<open>professor_uni\<close> is missing, not an instance with
  \<open>strength\<close> set.
\<close>

theorem CourseUpdate_strength_only_rejected:
  "CourseUpdate_validate L [(''strength'', PInt 60)] = Inl [([Key ''professor_uni''], Missing)]"
  by (simp add: eval_defs)

lemma CourseUpdate_strength_with_professor:
  "CourseUpdate_validate L [(''professor_uni'', PNone), (''strength'', PInt 60)] =
     Inr \<lparr>CourseUpdate.course_number = None, CourseUpdate.name = None,
          CourseUpdate.credits = None, CourseUpdate.professor_uni = None,
          CourseUpdate.strength = Some 60,
          CourseUpdate.model_fields_set = {''professor_uni'', ''strength''}\<rparr>"
  by (simp add: eval_defs)

text \<open>
  Claim C3 at a \<open>DepartmentUpdate\<close> payload. All five fields are declared with
  \<^verbatim>\<open>Field(...)\<close>: a payload that omits \<open>email\<close> is rejected with a missing-field
  error, so the omission is not represented in any instance, while the same payload with an
  explicit \<^verbatim>\<open>None\<close> for \<open>email\<close> validates.
\<close>

theorem DepartmentUpdate_omitted_field_rejected:
  "DepartmentUpdate_validate L
     [(''department_code'', PNone), (''name'', PStr ''Industry and Engineering''),
      (''head_of_department'', PNone), (''courses_list'', PNone)]
   = Inl [([Key ''email''], Missing)]
   \<and> DepartmentUpdate_validate L
     [(''department_code'', PNone), (''name'', PStr ''Industry and Engineering''),
      (''head_of_department'', PNone), (''courses_list'', PNone), (''email'', PNone)]
   = Inr \<lparr>DepartmentUpdate.department_code = None,
          DepartmentUpdate.name = Some ''Industry and Engineering'',
          DepartmentUpdate.head_of_department = None, DepartmentUpdate.courses_list = None,
          DepartmentUpdate.email = None,
          DepartmentUpdate.model_fields_set =
            {''department_code'', ''name'', ''head_of_department'', ''courses_list'', ''email''}\<rparr>"
  by (simp add: eval_defs)

lemma CourseUpdate_omitted_or_null:
  "CourseUpdate_validate L [(''professor_uni'', PNone)] =
     Inr \<lparr>CourseUpdate.course_number = None, CourseUpdate.name = None,
          CourseUpdate.credits = None, CourseUpdate.professor_uni = None,
          CourseUpdate.strength = None, CourseUpdate.model_fields_set = {''professor_uni''}\<rparr>"
  "CourseUpdate_validate L [(''name'', PNone), (''professor_uni'', PNone)] =
     Inr \<lparr>CourseUpdate.course_number = None, CourseUpdate.name = None,
          CourseUpdate.credits = None, CourseUpdate.professor_uni = None,
          CourseUpdate.strength = None,
          CourseUpdate.model_fields_set = {''name'', ''professor_uni''}\<rparr>"
  by (simp_all add: eval_defs insert_commute)

text \<open>
  Claim C1 at \<open>CourseUpdate\<close>. Its \<open>course_number\<close> is annotated
  \<^verbatim>\<open>Optional[UNIType]\<close>, not with the course-number type: with the UNI format of the
  specification, the course number \<open>COMS4995W\<close> (the example the field itself gives) is
  rejected, and the UNI \<open>dj2390\<close>, which is no course number, is accepted.
\<close>

theorem CourseUpdate_course_number_checked_as_UNI:
  "CourseNumberType ''COMS4995W''
   \<and> CourseUpdate_validate reference_lib
       [(''course_number'', PStr ''COMS4995W''), (''professor_uni'', PStr ''dj2390'')]
     = Inl [([Key ''course_number''], StringPatternMismatch)]
   \<and> \<not> CourseNumberType ''dj2390''
   \<and> CourseUpdate_validate reference_lib
       [(''course_number'', PStr ''dj2390''), (''professor_uni'', PStr ''dj2390'')]
     = Inr \<lparr>CourseUpdate.course_number = Some ''dj2390'', CourseUpdate.name = None,
            CourseUpdate.credits = None, CourseUpdate.professor_uni = Some ''dj2390'',
            CourseUpdate.strength = None,
            CourseUpdate.model_fields_set = {''course_number'', ''professor_uni''}\<rparr>"
  by (simp add: eval_defs reference_defs)

subsection \<open>The two checks of a course number\<close>

lemma errs_with_default:
  "errs (with_default p k val d) =
     (case map_of p k of None \<Rightarrow> [] | Some v \<Rightarrow> at (Key k) (errs (val v)))"
  by (cases "map_of p k") (simp_all add: with_default_def errs_under errs_Inr)

lemma failed_at_with_default_other:
  "j \<noteq> k \<Longrightarrow> \<not> failed_at (Key j # l) (with_default p k val d)"
  by (auto simp: failed_at_def errs_with_default at_def split: option.splits)

lemma course_number_of_CourseCreate:
  assumes "map_of p ''course_number'' = Some (PStr s)"
  shows "failed_at [Key ''course_number''] (CourseCreate_validate L p) \<longleftrightarrow> \<not> CourseNumberType s"
proof -
  have "failed_at [Key ''course_number''] (CourseCreate_validate L p) \<longleftrightarrow>
      failed_at [Key ''course_number'']
        (required p ''course_number'' (constrained_str CourseNumberType))"
    by (simp add: CourseCreate_validate_def CourseBase_validate_def CourseBase_fields_def
        failed_at_and_field failed_at_Inr failed_at_required_other)
  also have "\<dots> \<longleftrightarrow> \<not> CourseNumberType s"
    using assms
    by (simp add: failed_at_def errs_required constrained_str_def at_def errs_Inl errs_Inr)
  finally show ?thesis .
qed

lemma course_number_of_CourseUpdate:
  assumes "map_of p ''course_number'' = Some (PStr s)"
  shows "failed_at [Key ''course_number''] (CourseUpdate_validate L p) \<longleftrightarrow> \<not> UNIType L s"
proof -
  have "failed_at [Key ''course_number''] (CourseUpdate_validate L p) \<longleftrightarrow>
      failed_at [Key ''course_number'']
        (with_default p ''course_number'' (optional (constrained_str (UNIType L))) None)"
    by (simp add: CourseUpdate_validate_def failed_at_and_field failed_at_Inr
        failed_at_required_other failed_at_with_default_other)
  also have "\<dots> \<longleftrightarrow> \<not> UNIType L s"
    using assms
    by (simp add: failed_at_def errs_with_default optional_def constrained_str_def at_def
        errs_Inl errs_Inr)
  finally show ?thesis .
qed

section \<open>The course list and the e-mail address of a department\<close>



lemma in_at_Nil: "([], t) \<notin> set (at j es)"
  by (auto simp: at_def)













section \<open>The generated fields of the read models\<close>

lemma under_Inr_iff: "under i r = Inr a \<longleftrightarrow> r = Inr a"
  by (cases r) (simp_all add: under_def)

lemma factory_field_Inr_iff:
  "factory_field p k val factory w = (Inr a, w1) \<longleftrightarrow>
     (map_of p k = None \<and> factory w = (a, w1))
     \<or> (\<exists>v. map_of p k = Some v \<and> val v = Inr a \<and> w1 = w)"
  by (cases "map_of p k"; cases "factory w") (auto simp: factory_field_def under_Inr_iff)

lemma factory_field_world:
  "factory_field p k val factory w = (x, w1) \<Longrightarrow>
     w1 = (if map_of p k = None then snd (factory w) else w)"
  by (cases "map_of p k"; cases "factory w") (auto simp: factory_field_def)

lemma read_fields_Inr:
  assumes "(case factory_field p ''id'' (uuid_validator L) uuid4 w of (i, w1) \<Rightarrow>
      case factory_field p ''created_at'' (datetime_validator L) now w1 of (c, w2) \<Rightarrow>
      case factory_field p ''updated_at'' (datetime_validator L) now w2 of (u, w3) \<Rightarrow>
        (and_field (and_field (and_field B i) c) u, w3)) = (Inr r, w')"
    and proj: "\<And>h i c u. B = Inr h \<Longrightarrow> fi (h i c u) = i \<and> fc (h i c u) = c \<and> fu (h i c u) = u"
  shows "(map_of p ''id'' = None \<longrightarrow> fi r = entropy w (drawn w))
     \<and> (\<forall>v. map_of p ''id'' = Some v \<longrightarrow> uuid_validator L v = Inr (fi r))
     \<and> (map_of p ''created_at'' = None \<longrightarrow> fc r = clock w (reads w))
     \<and> (\<forall>v. map_of p ''created_at'' = Some v \<longrightarrow> datetime_validator L v = Inr (fc r))
     \<and> (map_of p ''updated_at'' = None \<longrightarrow>
          fu r = clock w (if map_of p ''created_at'' = None then Suc (reads w) else reads w))
     \<and> (\<forall>v. map_of p ''updated_at'' = Some v \<longrightarrow> datetime_validator L v = Inr (fu r))"
proof -
  obtain i w1 where f1: "factory_field p ''id'' (uuid_validator L) uuid4 w = (i, w1)"
    by (cases "factory_field p ''id'' (uuid_validator L) uuid4 w")
  obtain c w2 where f2: "factory_field p ''created_at'' (datetime_validator L) now w1 = (c, w2)"
    by (cases "factory_field p ''created_at'' (datetime_validator L) now w1")
  obtain u w3 where f3: "factory_field p ''updated_at'' (datetime_validator L) now w2 = (u, w3)"
    by (cases "factory_field p ''updated_at'' (datetime_validator L) now w2")
  from assms(1) f1 f2 f3 have "and_field (and_field (and_field B i) c) u = Inr r"
    by simp
  then obtain h i' c' u' where B: "B = Inr h" and i: "i = Inr i'" and c: "c = Inr c'"
    and u: "u = Inr u'" and r: "r = h i' c' u'"
    by (auto simp: and_field_Inr_iff)
  have w1: "clock w1 = clock w" "reads w1 = reads w"
    using factory_field_world [OF f1] by (auto simp: uuid4_def)
  have w2: "clock w2 = clock w"
    "reads w2 = (if map_of p ''created_at'' = None then Suc (reads w) else reads w)"
    using factory_field_world [OF f2] w1 by (auto simp: now_def)
  from f1 i have "(map_of p ''id'' = None \<longrightarrow> i' = entropy w (drawn w))
     \<and> (\<forall>v. map_of p ''id'' = Some v \<longrightarrow> uuid_validator L v = Inr i')"
    by (auto simp: factory_field_Inr_iff uuid4_def)
  moreover from f2 c w1 have "(map_of p ''created_at'' = None \<longrightarrow> c' = clock w (reads w))
     \<and> (\<forall>v. map_of p ''created_at'' = Some v \<longrightarrow> datetime_validator L v = Inr c')"
    by (auto simp: factory_field_Inr_iff now_def)
  moreover from f3 u w2 have "(map_of p ''updated_at'' = None \<longrightarrow>
          u' = clock w (if map_of p ''created_at'' = None then Suc (reads w) else reads w))
     \<and> (\<forall>v. map_of p ''updated_at'' = Some v \<longrightarrow> datetime_validator L v = Inr u')"
    by (auto simp: factory_field_Inr_iff now_def)
  moreover from proj [OF B] r have "fi r = i'" "fc r = c'" "fu r = u'"
    by simp_all
  ultimately show ?thesis by simp
qed

lemma CourseBase_fields_Inr:
  "CourseBase_fields L p mk = Inr h \<Longrightarrow> \<exists>cn nm pu cr st. h = mk cn nm pu cr st"
  by (clarsimp simp: CourseBase_fields_def and_field_Inr_iff) blast

lemma DepartmentBase_fields_Inr:
  "DepartmentBase_fields L p mk = Inr h \<Longrightarrow> \<exists>dc nm hd cs em. h = mk dc nm hd cs em"
  by (clarsimp simp: DepartmentBase_fields_def and_field_Inr_iff) blast

lemma CourseRead_generated_fields:
  assumes "CourseRead_validate L w p = (Inr r, w')"
  shows "(map_of p ''id'' = None \<longrightarrow> CourseRead.id' r = entropy w (drawn w))
     \<and> (\<forall>v. map_of p ''id'' = Some v \<longrightarrow> uuid_validator L v = Inr (CourseRead.id' r))
     \<and> (map_of p ''created_at'' = None \<longrightarrow> CourseRead.created_at r = clock w (reads w))
     \<and> (\<forall>v. map_of p ''created_at'' = Some v
          \<longrightarrow> datetime_validator L v = Inr (CourseRead.created_at r))
     \<and> (map_of p ''updated_at'' = None \<longrightarrow> CourseRead.updated_at r =
          clock w (if map_of p ''created_at'' = None then Suc (reads w) else reads w))
     \<and> (\<forall>v. map_of p ''updated_at'' = Some v
          \<longrightarrow> datetime_validator L v = Inr (CourseRead.updated_at r))"
proof (rule read_fields_Inr [OF assms [unfolded CourseRead_validate_def]])
  fix h i c u
  assume "CourseBase_fields L p (\<lambda>cn nm pu cr st i c u.
              \<lparr>CourseBase.course_number = cn, CourseBase.name = nm,
               CourseBase.professor_uni = pu, CourseBase.credits = cr,
               CourseBase.strength = st,
               CourseRead.id' = i, CourseRead.created_at = c, CourseRead.updated_at = u\<rparr>) = Inr h"
  from CourseBase_fields_Inr [OF this]
  show "CourseRead.id' (h i c u) = i \<and> CourseRead.created_at (h i c u) = c
      \<and> CourseRead.updated_at (h i c u) = u"
    by auto
qed

lemma DepartmentRead_generated_fields:
  assumes "DepartmentRead_validate L w p = (Inr r, w')"
  shows "(map_of p ''id'' = None \<longrightarrow> DepartmentRead.id' r = entropy w (drawn w))
     \<and> (\<forall>v. map_of p ''id'' = Some v \<longrightarrow> uuid_validator L v = Inr (DepartmentRead.id' r))
     \<and> (map_of p ''created_at'' = None \<longrightarrow> DepartmentRead.created_at r = clock w (reads w))
     \<and> (\<forall>v. map_of p ''created_at'' = Some v
          \<longrightarrow> datetime_validator L v = Inr (DepartmentRead.created_at r))
     \<and> (map_of p ''updated_at'' = None \<longrightarrow> DepartmentRead.updated_at r =
          clock w (if map_of p ''created_at'' = None then Suc (reads w) else reads w))
     \<and> (\<forall>v. map_of p ''updated_at'' = Some v
          \<longrightarrow> datetime_validator L v = Inr (DepartmentRead.updated_at r))"
proof (rule read_fields_Inr [OF assms [unfolded DepartmentRead_validate_def]])
  fix h i c u
  assume "DepartmentBase_fields L p (\<lambda>dc nm hd cs em i c u.
              \<lparr>DepartmentBase.department_code = dc, DepartmentBase.name = nm,
               DepartmentBase.head_of_department = hd, DepartmentBase.courses_list = cs,
               DepartmentBase.email = em,
               DepartmentRead.id' = i, DepartmentRead.created_at = c,
               DepartmentRead.updated_at = u\<rparr>) = Inr h"
  from DepartmentBase_fields_Inr [OF this]
  show "DepartmentRead.id' (h i c u) = i \<and> DepartmentRead.created_at (h i c u) = c
      \<and> DepartmentRead.updated_at (h i c u) = u"
    by auto
qed

lemmas read_eval_defs =
  CourseRead_validate_def DepartmentRead_validate_def factory_field_def uuid4_def now_def
  uuid_validator_def datetime_validator_def world0_def

text \<open>
  Against claim C5 as stated: two payloads that differ only in the \<open>id\<close> they supply
  give read models with these two identifiers; the generator is not asked.
\<close>

theorem CourseRead_takes_supplied_id:
  "fst (CourseRead_validate reference_lib world0 (cloud_computing @ [(''id'', PUuid 1)])) =
     Inr \<lparr>CourseBase.course_number = ''COMS4153W'', CourseBase.name = ''Cloud Computing'',
          CourseBase.professor_uni = ''dj2390'', CourseBase.credits = 3,
          CourseBase.strength = 120, CourseRead.id' = 1,
          CourseRead.created_at = 1736936430000000,
          CourseRead.updated_at = 1736936430000001\<rparr>
   \<and> fst (CourseRead_validate reference_lib world0 (cloud_computing @ [(''id'', PUuid 2)])) =
     Inr \<lparr>CourseBase.course_number = ''COMS4153W'', CourseBase.name = ''Cloud Computing'',
          CourseBase.professor_uni = ''dj2390'', CourseBase.credits = 3,
          CourseBase.strength = 120, CourseRead.id' = 2,
          CourseRead.created_at = 1736936430000000,
          CourseRead.updated_at = 1736936430000001\<rparr>
   \<and> fst (uuid4 world0) = 1000"
  by (simp add: eval_defs reference_defs read_eval_defs cloud_computing_def)

text \<open>
  Claim C5, as the code has it. \<open>id\<close>, \<open>created_at\<close> and \<open>updated_at\<close> of a read
  model are ordinary fields with a default factory. A field that the payload does not
  supply is generated: \<open>id\<close> by \<^verbatim>\<open>uuid4\<close>, the timestamps by successive readings of the
  clock. A field that the payload supplies is validated and its value is the one of the
  instance.
\<close>

theorem read_fields_generated_unless_supplied:
  "(CourseRead_validate L w p = (Inr r, w') \<longrightarrow>
      (map_of p ''id'' = None \<longrightarrow> CourseRead.id' r = entropy w (drawn w))
      \<and> (\<forall>v. map_of p ''id'' = Some v \<longrightarrow> uuid_validator L v = Inr (CourseRead.id' r))
      \<and> (map_of p ''created_at'' = None \<longrightarrow> CourseRead.created_at r = clock w (reads w))
      \<and> (\<forall>v. map_of p ''created_at'' = Some v
           \<longrightarrow> datetime_validator L v = Inr (CourseRead.created_at r))
      \<and> (map_of p ''updated_at'' = None \<longrightarrow> CourseRead.updated_at r =
           clock w (if map_of p ''created_at'' = None then Suc (reads w) else reads w))
      \<and> (\<forall>v. map_of p ''updated_at'' = Some v
           \<longrightarrow> datetime_validator L v = Inr (CourseRead.updated_at r)))
   \<and> (DepartmentRead_validate L w q = (Inr d, w'') \<longrightarrow>
      (map_of q ''id'' = None \<longrightarrow> DepartmentRead.id' d = entropy w (drawn w))
      \<and> (\<forall>v. map_of q ''id'' = Some v \<longrightarrow> uuid_validator L v = Inr (DepartmentRead.id' d))
      \<and> (map_of q ''created_at'' = None \<longrightarrow> DepartmentRead.created_at d = clock w (reads w))
      \<and> (\<forall>v. map_of q ''created_at'' = Some v
           \<longrightarrow> datetime_validator L v = Inr (DepartmentRead.created_at d))
      \<and> (map_of q ''updated_at'' = None \<longrightarrow> DepartmentRead.updated_at d =
           clock w (if map_of q ''created_at'' = None then Suc (reads w) else reads w))
      \<and> (\<forall>v. map_of q ''updated_at'' = Some v
           \<longrightarrow> datetime_validator L v = Inr (DepartmentRead.updated_at d)))"
  using CourseRead_generated_fields [of L w p r w']
    DepartmentRead_generated_fields [of L w q d w'']
  by blast

theorem read_fields_generated_unless_supplied_witness:
  "CourseRead_validate reference_lib world0 cloud_computing =
     (Inr \<lparr>CourseBase.course_number = ''COMS4153W'', CourseBase.name = ''Cloud Computing'',
           CourseBase.professor_uni = ''dj2390'', CourseBase.credits = 3,
           CourseBase.strength = 120, CourseRead.id' = entropy world0 (drawn world0),
           CourseRead.created_at = clock world0 (reads world0),
           CourseRead.updated_at = clock world0 (Suc (reads world0))\<rparr>,
      world0\<lparr>drawn := 1, reads := 2\<rparr>)
   \<and> map_of cloud_computing ''id'' = None \<and> map_of cloud_computing ''created_at'' = None
   \<and> map_of cloud_computing ''updated_at'' = None
   \<and> DepartmentRead_validate reference_lib world0 stored_department =
     (Inr \<lparr>DepartmentBase.department_code = ''COMS'', DepartmentBase.name = ''Computer Science'',
           DepartmentBase.head_of_department = ''sf2303'', DepartmentBase.courses_list = [],
           DepartmentBase.email = ''cs@columbia.edu'', DepartmentRead.id' = 7,
           DepartmentRead.created_at = 5, DepartmentRead.updated_at = 9\<rparr>,
      world0)
   \<and> map_of stored_department ''id'' = Some (PUuid 7)
   \<and> uuid_validator reference_lib (PUuid 7) = Inr 7"
proof -
  let ?r = "\<lparr>CourseBase.course_number = ''COMS4153W'', CourseBase.name = ''Cloud Computing'',
           CourseBase.professor_uni = ''dj2390'', CourseBase.credits = 3,
           CourseBase.strength = 120, CourseRead.id' = 1000,
           CourseRead.created_at = 1736936430000000,
           CourseRead.updated_at = 1736936430000001\<rparr>"
  let ?d = "\<lparr>DepartmentBase.department_code = ''COMS'', DepartmentBase.name = ''Computer Science'',
           DepartmentBase.head_of_department = ''sf2303'', DepartmentBase.courses_list = [],
           DepartmentBase.email = ''cs@columbia.edu'', DepartmentRead.id' = 7,
           DepartmentRead.created_at = 5, DepartmentRead.updated_at = 9\<rparr>"
  have c: "CourseRead_validate reference_lib world0 cloud_computing =
      (Inr ?r, world0\<lparr>drawn := 1, reads := 2\<rparr>)"
    by (simp add: eval_defs reference_defs read_eval_defs cloud_computing_def)
  have d: "DepartmentRead_validate reference_lib world0 stored_department = (Inr ?d, world0)"
    by (simp add: eval_defs reference_defs read_eval_defs stored_department_def
        computer_science_def)
  have m: "map_of cloud_computing ''id'' = None" "map_of cloud_computing ''created_at'' = None"
    "map_of cloud_computing ''updated_at'' = None"
    "map_of stored_department ''id'' = Some (PUuid 7)"
    by (simp_all add: cloud_computing_def stored_department_def computer_science_def)
  from read_fields_generated_unless_supplied [of reference_lib world0 cloud_computing ?r
      "world0\<lparr>drawn := 1, reads := 2\<rparr>" stored_department ?d world0] c d m
  have "CourseRead.id' ?r = entropy world0 (drawn world0)"
    "CourseRead.created_at ?r = clock world0 (reads world0)"
    "CourseRead.updated_at ?r = clock world0 (Suc (reads world0))"
    "uuid_validator reference_lib (PUuid 7) = Inr (DepartmentRead.id' ?d)"
    by simp_all
  with c d m show ?thesis by simp
qed

subsection \<open>Timestamps after creation\<close>

lemma required_constrained_Inr:
  "required p k (constrained_str pat) = Inr a \<Longrightarrow> pat a"
  by (cases "map_of p k")
    (auto simp: required_def under_Inr_iff constrained_str_def split: pyval.splits if_splits)

lemma CourseBase_fields_Inr_valid:
  "CourseBase_fields L p mk = Inr h \<Longrightarrow>
     \<exists>cn nm pu cr st. h = mk cn nm pu cr st \<and> CourseNumberType cn \<and> UNIType L pu"
  by (clarsimp simp: CourseBase_fields_def and_field_Inr_iff)
    (blast dest: required_constrained_Inr)

lemma CourseBase_dump_validates:
  assumes "CourseNumberType (CourseBase.course_number c)"
    and "UNIType L (CourseBase.professor_uni c)"
  shows "CourseBase_validate L (CourseBase_dump c) = Inr c"
  using assms
  by (simp add: CourseBase_validate_def CourseBase_fields_def CourseBase_dump_def and_field_def
      required_def under_def constrained_str_def str_validator_def int_validator_def)

lemma CourseRead_dump_validates:
  assumes "CourseNumberType (CourseBase.course_number r)"
    and "UNIType L (CourseBase.professor_uni r)"
  shows "CourseRead_validate L w (CourseRead_dump r) = (Inr r, w)"
  using assms
  by (simp add: CourseRead_validate_def CourseBase_fields_def CourseRead_dump_def and_field_def
      required_def under_def constrained_str_def str_validator_def int_validator_def
      factory_field_def uuid_validator_def datetime_validator_def)

lemma CourseRead_validate_valid:
  assumes "CourseRead_validate L w p = (Inr r, w')"
  shows "CourseNumberType (CourseBase.course_number r) \<and> UNIType L (CourseBase.professor_uni r)"
proof -
  obtain i w1 where f1: "factory_field p ''id'' (uuid_validator L) uuid4 w = (i, w1)"
    by (cases "factory_field p ''id'' (uuid_validator L) uuid4 w")
  obtain c w2 where f2: "factory_field p ''created_at'' (datetime_validator L) now w1 = (c, w2)"
    by (cases "factory_field p ''created_at'' (datetime_validator L) now w1")
  obtain u w3 where f3: "factory_field p ''updated_at'' (datetime_validator L) now w2 = (u, w3)"
    by (cases "factory_field p ''updated_at'' (datetime_validator L) now w2")
  from assms f1 f2 f3 obtain h i' c' u' where
    h: "CourseBase_fields L p (\<lambda>cn nm pu cr st i c u.
              \<lparr>CourseBase.course_number = cn, CourseBase.name = nm,
               CourseBase.professor_uni = pu, CourseBase.credits = cr,
               CourseBase.strength = st,
               CourseRead.id' = i, CourseRead.created_at = c, CourseRead.updated_at = u\<rparr>) = Inr h"
    and r: "r = h i' c' u'"
    by (auto simp: CourseRead_validate_def and_field_Inr_iff)
  from CourseBase_fields_Inr_valid [OF h] r show ?thesis
    by auto
qed

lemma validate_items_Inr:
  "validate_items val n xs = Inr ys \<Longrightarrow> \<forall>y \<in> set ys. \<exists>x. val x = Inr y"
proof (induction xs arbitrary: n ys)
  case Nil
  then show ?case by simp
next
  case (Cons x xs)
  then show ?case
    by (auto split: sum.splits)
qed

lemma CourseBase_model_Inr_valid:
  assumes "CourseBase_model L v = Inr c"
  shows "CourseNumberType (CourseBase.course_number c) \<and> UNIType L (CourseBase.professor_uni c)"
proof (cases v)
  case (PDict p)
  with assms have "CourseBase_fields L p (\<lambda>cn nm pu cr st.
       \<lparr>CourseBase.course_number = cn, CourseBase.name = nm, CourseBase.professor_uni = pu,
        CourseBase.credits = cr, CourseBase.strength = st\<rparr>) = Inr c"
    by (simp add: CourseBase_model_def CourseBase_validate_def)
  from CourseBase_fields_Inr_valid [OF this] show ?thesis
    by auto
qed (insert assms, simp_all add: CourseBase_model_def)

lemma required_courses_Inr_valid:
  assumes "required p k (list_validator (CourseBase_model L)) = Inr cs"
  shows "\<forall>c \<in> set cs.
     CourseNumberType (CourseBase.course_number c) \<and> UNIType L (CourseBase.professor_uni c)"
proof -
  from assms obtain v where "list_validator (CourseBase_model L) v = Inr cs"
    by (cases "map_of p k") (auto simp: required_def under_Inr_iff)
  then obtain xs where "validate_items (CourseBase_model L) 0 xs = Inr cs"
    by (cases v) (auto simp: list_validator_def)
  from validate_items_Inr [OF this] show ?thesis
    by (blast dest: CourseBase_model_Inr_valid)
qed

lemma dumped_courses_validate:
  "\<forall>c \<in> set cs.
     CourseNumberType (CourseBase.course_number c) \<and> UNIType L (CourseBase.professor_uni c)
   \<Longrightarrow> validate_items (CourseBase_model L) n (map (\<lambda>c. PDict (CourseBase_dump c)) cs) = Inr cs"
  by (induction cs arbitrary: n) (simp_all add: CourseBase_model_def CourseBase_dump_validates)

lemma DepartmentBase_fields_Inr_valid:
  "DepartmentBase_fields L p mk = Inr h \<Longrightarrow>
     \<exists>dc nm hd cs em. h = mk dc nm hd cs em \<and> UNIType L hd
       \<and> (\<forall>c \<in> set cs. CourseNumberType (CourseBase.course_number c)
             \<and> UNIType L (CourseBase.professor_uni c))"
  by (clarsimp simp: DepartmentBase_fields_def and_field_Inr_iff)
    (blast dest: required_constrained_Inr required_courses_Inr_valid)

lemma DepartmentRead_validate_valid:
  assumes "DepartmentRead_validate L w p = (Inr d, w')"
  shows "UNIType L (DepartmentBase.head_of_department d)
     \<and> (\<forall>c \<in> set (DepartmentBase.courses_list d).
           CourseNumberType (CourseBase.course_number c)
           \<and> UNIType L (CourseBase.professor_uni c))"
proof -
  obtain i w1 where f1: "factory_field p ''id'' (uuid_validator L) uuid4 w = (i, w1)"
    by (cases "factory_field p ''id'' (uuid_validator L) uuid4 w")
  obtain c w2 where f2: "factory_field p ''created_at'' (datetime_validator L) now w1 = (c, w2)"
    by (cases "factory_field p ''created_at'' (datetime_validator L) now w1")
  obtain u w3 where f3: "factory_field p ''updated_at'' (datetime_validator L) now w2 = (u, w3)"
    by (cases "factory_field p ''updated_at'' (datetime_validator L) now w2")
  from assms f1 f2 f3 obtain h i' c' u' where
    h: "DepartmentBase_fields L p (\<lambda>dc nm hd cs em i c u.
              \<lparr>DepartmentBase.department_code = dc, DepartmentBase.name = nm,
               DepartmentBase.head_of_department = hd, DepartmentBase.courses_list = cs,
               DepartmentBase.email = em,
               DepartmentRead.id' = i, DepartmentRead.created_at = c,
               DepartmentRead.updated_at = u\<rparr>) = Inr h"
    and r: "d = h i' c' u'"
    by (auto simp: DepartmentRead_validate_def and_field_Inr_iff)
  from DepartmentBase_fields_Inr_valid [OF h] r show ?thesis
    by auto
qed

lemma DepartmentRead_dump_validates:
  assumes "UNIType L (DepartmentBase.head_of_department d)"
    and "\<forall>c \<in> set (DepartmentBase.courses_list d).
           CourseNumberType (CourseBase.course_number c)
           \<and> UNIType L (CourseBase.professor_uni c)"
    and "validate_email L (DepartmentBase.email d) = Some (DepartmentBase.email d)"
  shows "DepartmentRead_validate L w (DepartmentRead_dump d) = (Inr d, w)"
  using assms(1,3) dumped_courses_validate [OF assms(2), of 0]
  by (simp add: DepartmentRead_validate_def DepartmentBase_fields_def DepartmentRead_dump_def
      and_field_def required_def under_def constrained_str_def str_validator_def
      email_validator_def list_validator_def factory_field_def uuid_validator_def
      datetime_validator_def)

text \<open>
  Against claim C9 as stated. The two timestamps of a read model are two readings of the
  wall clock, and nothing orders them: in a world whose clock is set back between the two
  readings, the read model built from the payload of the scenario has a \<open>created_at\<close>
  later than its \<open>updated_at\<close>. And \<open>created_at\<close> is generated again whenever a read
  model is built from a payload without it: the same payload in a later world gives
  another \<open>created_at\<close>.
\<close>

theorem clock_set_back_reverses_timestamps:
  "CourseRead_validate reference_lib world_back cloud_computing =
     (Inr \<lparr>CourseBase.course_number = ''COMS4153W'', CourseBase.name = ''Cloud Computing'',
           CourseBase.professor_uni = ''dj2390'', CourseBase.credits = 3,
           CourseBase.strength = 120, CourseRead.id' = 1000,
           CourseRead.created_at = 1736936430000000,
           CourseRead.updated_at = 1736936429999999\<rparr>,
      world_back\<lparr>drawn := 1, reads := 2\<rparr>)
   \<and> \<not> (1736936430000000 :: datetime) \<le> 1736936429999999
   \<and> fst (DepartmentRead_validate reference_lib world_back
         (computer_science [] ''cs@columbia.edu'')) =
     Inr \<lparr>DepartmentBase.department_code = ''COMS'', DepartmentBase.name = ''Computer Science'',
          DepartmentBase.head_of_department = ''sf2303'', DepartmentBase.courses_list = [],
          DepartmentBase.email = ''cs@columbia.edu'', DepartmentRead.id' = 1000,
          DepartmentRead.created_at = 1736936430000000,
          DepartmentRead.updated_at = 1736936429999999\<rparr>
   \<and> fst (CourseRead_validate reference_lib world0 cloud_computing) =
     Inr \<lparr>CourseBase.course_number = ''COMS4153W'', CourseBase.name = ''Cloud Computing'',
          CourseBase.professor_uni = ''dj2390'', CourseBase.credits = 3,
          CourseBase.strength = 120, CourseRead.id' = 1000,
          CourseRead.created_at = 1736936430000000,
          CourseRead.updated_at = 1736936430000001\<rparr>
   \<and> fst (CourseRead_validate reference_lib world1 cloud_computing) =
     Inr \<lparr>CourseBase.course_number = ''COMS4153W'', CourseBase.name = ''Cloud Computing'',
          CourseBase.professor_uni = ''dj2390'', CourseBase.credits = 3,
          CourseBase.strength = 120, CourseRead.id' = 1005,
          CourseRead.created_at = 1800000000000009,
          CourseRead.updated_at = 1800000000000010\<rparr>"
  by (simp add: eval_defs reference_defs read_eval_defs world_back_def world1_def
      cloud_computing_def computer_science_def)

text \<open>
  Claim C9, as the code has it. In a read model whose timestamps are both generated,
  \<open>created_at\<close> is one reading of the clock and \<open>updated_at\<close> is the next one, so
  \<open>created_at \<le> updated_at\<close> holds exactly when the clock has not been set back between
  the two. After creation \<open>created_at\<close> is kept by handing it back in: the dump of a read
  model validates to the same instance in every later state of the world (for a
  department, when the stored e-mail address is accepted as it is), and every read model
  built from a payload that carries the stored \<open>created_at\<close> has it. A read model built
  from a payload without \<open>created_at\<close> gets a new one from the clock.
\<close>

theorem timestamps_follow_the_clock:
  "(CourseRead_validate L w p = (Inr r, w') \<longrightarrow>
      (map_of p ''created_at'' = None \<and> map_of p ''updated_at'' = None \<longrightarrow>
         CourseRead.created_at r = clock w (reads w)
         \<and> CourseRead.updated_at r = clock w (Suc (reads w))
         \<and> (CourseRead.created_at r \<le> CourseRead.updated_at r
              \<longleftrightarrow> clock w (reads w) \<le> clock w (Suc (reads w))))
      \<and> CourseRead_validate L w2 (CourseRead_dump r) = (Inr r, w2)
      \<and> (\<forall>q r2 w3. map_of q ''created_at'' = map_of (CourseRead_dump r) ''created_at''
            \<and> CourseRead_validate L w2 q = (Inr r2, w3)
            \<longrightarrow> CourseRead.created_at r2 = CourseRead.created_at r)
      \<and> (\<forall>q r2 w3. map_of q ''created_at'' = None
            \<and> CourseRead_validate L w2 q = (Inr r2, w3)
            \<longrightarrow> CourseRead.created_at r2 = clock w2 (reads w2)))
   \<and> (DepartmentRead_validate L v p' = (Inr d, v') \<longrightarrow>
      (map_of p' ''created_at'' = None \<and> map_of p' ''updated_at'' = None \<longrightarrow>
         DepartmentRead.created_at d = clock v (reads v)
         \<and> DepartmentRead.updated_at d = clock v (Suc (reads v))
         \<and> (DepartmentRead.created_at d \<le> DepartmentRead.updated_at d
              \<longleftrightarrow> clock v (reads v) \<le> clock v (Suc (reads v))))
      \<and> (validate_email L (DepartmentBase.email d) = Some (DepartmentBase.email d)
            \<longrightarrow> DepartmentRead_validate L w2 (DepartmentRead_dump d) = (Inr d, w2))
      \<and> (\<forall>q d2 w3. map_of q ''created_at'' = map_of (DepartmentRead_dump d) ''created_at''
            \<and> DepartmentRead_validate L w2 q = (Inr d2, w3)
            \<longrightarrow> DepartmentRead.created_at d2 = DepartmentRead.created_at d)
      \<and> (\<forall>q d2 w3. map_of q ''created_at'' = None
            \<and> DepartmentRead_validate L w2 q = (Inr d2, w3)
            \<longrightarrow> DepartmentRead.created_at d2 = clock w2 (reads w2)))"
proof (intro conjI impI allI)
  assume v: "CourseRead_validate L w p = (Inr r, w')"
    and m: "map_of p ''created_at'' = None \<and> map_of p ''updated_at'' = None"
  from CourseRead_generated_fields [OF v] m
  show c: "CourseRead.created_at r = clock w (reads w)"
    and u: "CourseRead.updated_at r = clock w (Suc (reads w))"
    by simp_all
  show "CourseRead.created_at r \<le> CourseRead.updated_at r
      \<longleftrightarrow> clock w (reads w) \<le> clock w (Suc (reads w))"
    by (simp only: c u)
next
  assume v: "CourseRead_validate L w p = (Inr r, w')"
  from CourseRead_validate_valid [OF v]
  show "CourseRead_validate L w2 (CourseRead_dump r) = (Inr r, w2)"
    by (simp add: CourseRead_dump_validates)
next
  fix q r2 w3
  assume "map_of q ''created_at'' = map_of (CourseRead_dump r) ''created_at''
            \<and> CourseRead_validate L w2 q = (Inr r2, w3)"
  then have m: "map_of q ''created_at'' = Some (PDatetime (CourseRead.created_at r))"
    and v2: "CourseRead_validate L w2 q = (Inr r2, w3)"
    by (simp_all add: CourseRead_dump_def)
  from CourseRead_generated_fields [OF v2] m
  show "CourseRead.created_at r2 = CourseRead.created_at r"
    by (simp add: datetime_validator_def)
next
  fix q r2 w3
  assume "map_of q ''created_at'' = None \<and> CourseRead_validate L w2 q = (Inr r2, w3)"
  then have m: "map_of q ''created_at'' = None"
    and v2: "CourseRead_validate L w2 q = (Inr r2, w3)"
    by simp_all
  from CourseRead_generated_fields [OF v2] m
  show "CourseRead.created_at r2 = clock w2 (reads w2)"
    by simp
next
  assume v: "DepartmentRead_validate L v p' = (Inr d, v')"
    and m: "map_of p' ''created_at'' = None \<and> map_of p' ''updated_at'' = None"
  from DepartmentRead_generated_fields [OF v] m
  show c: "DepartmentRead.created_at d = clock v (reads v)"
    and u: "DepartmentRead.updated_at d = clock v (Suc (reads v))"
    by simp_all
  show "DepartmentRead.created_at d \<le> DepartmentRead.updated_at d
      \<longleftrightarrow> clock v (reads v) \<le> clock v (Suc (reads v))"
    by (simp only: c u)
next
  assume v: "DepartmentRead_validate L v p' = (Inr d, v')"
    and e: "validate_email L (DepartmentBase.email d) = Some (DepartmentBase.email d)"
  from DepartmentRead_validate_valid [OF v] e
  show "DepartmentRead_validate L w2 (DepartmentRead_dump d) = (Inr d, w2)"
    by (simp add: DepartmentRead_dump_validates)
next
  fix q d2 w3
  assume "map_of q ''created_at'' = map_of (DepartmentRead_dump d) ''created_at''
            \<and> DepartmentRead_validate L w2 q = (Inr d2, w3)"
  then have m: "map_of q ''created_at'' = Some (PDatetime (DepartmentRead.created_at d))"
    and v2: "DepartmentRead_validate L w2 q = (Inr d2, w3)"
    by (simp_all add: DepartmentRead_dump_def)
  from DepartmentRead_generated_fields [OF v2] m
  show "DepartmentRead.created_at d2 = DepartmentRead.created_at d"
    by (simp add: datetime_validator_def)
next
  fix q d2 w3
  assume "map_of q ''created_at'' = None \<and> DepartmentRead_validate L w2 q = (Inr d2, w3)"
  then have m: "map_of q ''created_at'' = None"
    and v2: "DepartmentRead_validate L w2 q = (Inr d2, w3)"
    by simp_all
  from DepartmentRead_generated_fields [OF v2] m
  show "DepartmentRead.created_at d2 = clock w2 (reads w2)"
    by simp
qed

theorem timestamps_follow_the_clock_witness:
  "CourseRead_validate reference_lib world0 cloud_computing =
     (Inr \<lparr>CourseBase.course_number = ''COMS4153W'', CourseBase.name = ''Cloud Computing'',
           CourseBase.professor_uni = ''dj2390'', CourseBase.credits = 3,
           CourseBase.strength = 120, CourseRead.id' = 1000,
           CourseRead.created_at = clock world0 (reads world0),
           CourseRead.updated_at = clock world0 (Suc (reads world0))\<rparr>,
      world0\<lparr>drawn := 1, reads := 2\<rparr>)
   \<and> map_of cloud_computing ''created_at'' = None
   \<and> map_of cloud_computing ''updated_at'' = None
   \<and> clock world0 (reads world0) \<le> clock world0 (Suc (reads world0))
   \<and> CourseRead_validate reference_lib world1
       (CourseRead_dump
         \<lparr>CourseBase.course_number = ''COMS4153W'', CourseBase.name = ''Cloud Computing'',
          CourseBase.professor_uni = ''dj2390'', CourseBase.credits = 3,
          CourseBase.strength = 120, CourseRead.id' = 1000,
          CourseRead.created_at = 1736936430000000,
          CourseRead.updated_at = 1736936430000001\<rparr>) =
     (Inr \<lparr>CourseBase.course_number = ''COMS4153W'', CourseBase.name = ''Cloud Computing'',
           CourseBase.professor_uni = ''dj2390'', CourseBase.credits = 3,
           CourseBase.strength = 120, CourseRead.id' = 1000,
           CourseRead.created_at = 1736936430000000,
           CourseRead.updated_at = 1736936430000001\<rparr>,
      world1)
   \<and> DepartmentRead_validate reference_lib world0 (computer_science [] ''cs@columbia.edu'') =
     (Inr \<lparr>DepartmentBase.department_code = ''COMS'', DepartmentBase.name = ''Computer Science'',
           DepartmentBase.head_of_department = ''sf2303'', DepartmentBase.courses_list = [],
           DepartmentBase.email = ''cs@columbia.edu'', DepartmentRead.id' = 1000,
           DepartmentRead.created_at = 1736936430000000,
           DepartmentRead.updated_at = 1736936430000001\<rparr>,
      world0\<lparr>drawn := 1, reads := 2\<rparr>)
   \<and> validate_email reference_lib ''cs@columbia.edu'' = Some ''cs@columbia.edu''
   \<and> DepartmentRead_validate reference_lib world1
       (DepartmentRead_dump
         \<lparr>DepartmentBase.department_code = ''COMS'', DepartmentBase.name = ''Computer Science'',
          DepartmentBase.head_of_department = ''sf2303'', DepartmentBase.courses_list = [],
          DepartmentBase.email = ''cs@columbia.edu'', DepartmentRead.id' = 1000,
          DepartmentRead.created_at = 1736936430000000,
          DepartmentRead.updated_at = 1736936430000001\<rparr>) =
     (Inr \<lparr>DepartmentBase.department_code = ''COMS'', DepartmentBase.name = ''Computer Science'',
           DepartmentBase.head_of_department = ''sf2303'', DepartmentBase.courses_list = [],
           DepartmentBase.email = ''cs@columbia.edu'', DepartmentRead.id' = 1000,
           DepartmentRead.created_at = 1736936430000000,
           DepartmentRead.updated_at = 1736936430000001\<rparr>,
      world1)"
proof -
  let ?r = "\<lparr>CourseBase.course_number = ''COMS4153W'', CourseBase.name = ''Cloud Computing'',
           CourseBase.professor_uni = ''dj2390'', CourseBase.credits = 3,
           CourseBase.strength = 120, CourseRead.id' = 1000,
           CourseRead.created_at = 1736936430000000,
           CourseRead.updated_at = 1736936430000001\<rparr>"
  let ?d = "\<lparr>DepartmentBase.department_code = ''COMS'', DepartmentBase.name = ''Computer Science'',
           DepartmentBase.head_of_department = ''sf2303'', DepartmentBase.courses_list = [],
           DepartmentBase.email = ''cs@columbia.edu'', DepartmentRead.id' = 1000,
           DepartmentRead.created_at = 1736936430000000,
           DepartmentRead.updated_at = 1736936430000001\<rparr>"
  have c: "CourseRead_validate reference_lib world0 cloud_computing =
      (Inr ?r, world0\<lparr>drawn := 1, reads := 2\<rparr>)"
    by (simp add: eval_defs reference_defs read_eval_defs cloud_computing_def)
  have d: "DepartmentRead_validate reference_lib world0 (computer_science [] ''cs@columbia.edu'')
      = (Inr ?d, world0\<lparr>drawn := 1, reads := 2\<rparr>)"
    by (simp add: eval_defs reference_defs read_eval_defs computer_science_def)
  have m: "map_of cloud_computing ''created_at'' = None"
    "map_of cloud_computing ''updated_at'' = None"
    by (simp_all add: cloud_computing_def)
  have e: "validate_email reference_lib ''cs@columbia.edu'' = Some ''cs@columbia.edu''"
    by (simp add: reference_defs lower_def digit_def)
  have t: "clock world0 (reads world0) \<le> clock world0 (Suc (reads world0))"
    by (simp add: world0_def)
  from timestamps_follow_the_clock [of reference_lib world0 cloud_computing ?r
      "world0\<lparr>drawn := 1, reads := 2\<rparr>" world1 world0
      "computer_science [] ''cs@columbia.edu''" ?d "world0\<lparr>drawn := 1, reads := 2\<rparr>"]
    c d m e
  have "CourseRead.created_at ?r = clock world0 (reads world0)"
    and "CourseRead.updated_at ?r = clock world0 (Suc (reads world0))"
    and "CourseRead_validate reference_lib world1 (CourseRead_dump ?r) = (Inr ?r, world1)"
    and "DepartmentRead_validate reference_lib world1 (DepartmentRead_dump ?d) = (Inr ?d, world1)"
    by simp_all
  with c d m e t show ?thesis
    by simp
qed

end
